theory Spec2Isabelle
  imports Complex_Main "HOL-Library.Sublist"
begin

section \<open>Python strings\<close>

text \<open>
  A Python \<open>str\<close> is modelled as a \<open>string\<close> holding the UTF-8 encoding of the text, one
  \<open>char\<close> per byte. Comparing texts, looking for one text inside another and looking for
  an ASCII character give the same answers on the encodings as on the texts, since no
  encoding of one code point occurs inside the encoding of another.

  \<open>whitespace\<close> lists the encodings of the code points for which \<open>str.isspace\<close> holds,
  the characters \<open>str.strip()\<close> removes when it is called without an argument: U+0009 to
  U+000D, U+001C to U+0020, U+0085, U+00A0, U+1680, U+2000 to U+200A, U+2028, U+2029,
  U+202F, U+205F and U+3000. \<open>lstrip\<close> removes them from the start of a text while there is
  one, \<open>rstrip\<close> from its end, and \<open>strip\<close> does both.
\<close>

definition whitespace :: "string list" where
  "whitespace =
     [[CHR 0x09], [CHR 0x0A], [CHR 0x0B], [CHR 0x0C], [CHR 0x0D],
      [CHR 0x1C], [CHR 0x1D], [CHR 0x1E], [CHR 0x1F], [CHR 0x20],
      [CHR 0xC2, CHR 0x85], [CHR 0xC2, CHR 0xA0], [CHR 0xE1, CHR 0x9A, CHR 0x80],
      [CHR 0xE2, CHR 0x80, CHR 0x80], [CHR 0xE2, CHR 0x80, CHR 0x81],
      [CHR 0xE2, CHR 0x80, CHR 0x82], [CHR 0xE2, CHR 0x80, CHR 0x83],
      [CHR 0xE2, CHR 0x80, CHR 0x84], [CHR 0xE2, CHR 0x80, CHR 0x85],
      [CHR 0xE2, CHR 0x80, CHR 0x86], [CHR 0xE2, CHR 0x80, CHR 0x87],
      [CHR 0xE2, CHR 0x80, CHR 0x88], [CHR 0xE2, CHR 0x80, CHR 0x89],
      [CHR 0xE2, CHR 0x80, CHR 0x8A], [CHR 0xE2, CHR 0x80, CHR 0xA8],
      [CHR 0xE2, CHR 0x80, CHR 0xA9], [CHR 0xE2, CHR 0x80, CHR 0xAF],
      [CHR 0xE2, CHR 0x81, CHR 0x9F], [CHR 0xE3, CHR 0x80, CHR 0x80]]"

function lstrip :: "string \<Rightarrow> string" where
  "lstrip s =
     (case find (\<lambda>w. prefix w s) whitespace of
        None \<Rightarrow> s
      | Some w \<Rightarrow> lstrip (drop (length w) s))"
  by pat_completeness auto
termination
proof (relation "measure length")
  show "wf (measure length)" by simp
next
  fix s w :: string
  assume "find (\<lambda>w. prefix w s) whitespace = Some w"
  then have "w \<in> set whitespace" and "prefix w s"
    by (auto simp: find_Some_iff)
  then have "w \<noteq> []" and "s \<noteq> []"
    by (auto simp: whitespace_def)
  then show "(drop (length w) s, s) \<in> measure length" by simp
qed

function rstrip :: "string \<Rightarrow> string" where
  "rstrip s =
     (case find (\<lambda>w. suffix w s) whitespace of
        None \<Rightarrow> s
      | Some w \<Rightarrow> rstrip (take (length s - length w) s))"
  by pat_completeness auto
termination
proof (relation "measure length")
  show "wf (measure length)" by simp
next
  fix s w :: string
  assume "find (\<lambda>w. suffix w s) whitespace = Some w"
  then have "w \<in> set whitespace" and "suffix w s"
    by (auto simp: find_Some_iff)
  then have "w \<noteq> []" and "s \<noteq> []"
    by (auto simp: whitespace_def)
  then show "(take (length s - length w) s, s) \<in> measure length" by simp
qed

definition strip :: "string \<Rightarrow> string" where
  "strip s = rstrip (lstrip s)"

text \<open>\<open>not s.strip()\<close>: the test both front-ends use for an empty explanation.\<close>

definition blank :: "string \<Rightarrow> bool" where
  "blank s = (strip s = [])"

section \<open>Response Extractor\<close>

text \<open>
  \<^verbatim>\<open>
  def extract_json(text: str) -> str:
      text = text.strip()
      match = re.search(r"\{.*\}", text, re.DOTALL)
      return match.group(0) if match else "{}"
  \<close>
  The regular expression is run the way a backtracking matcher runs it.
  \<open>match_star_close\<close> is the tail \<open>.*\}\<close> of the pattern at the start of its argument:
  the greedy star first tries to take one more character (any character, with DOTALL)
  and only when the rest cannot match does it stop and ask for the closing brace here.
  \<open>match_at\<close> is the whole pattern anchored at the start of its argument, and
  \<open>re_search\<close> tries the start positions from left to right. The two braces are ASCII
  and the dot takes any character, so the match on the encoding is the encoding of the
  match on the text.
\<close>

fun match_star_close :: "string \<Rightarrow> string option" where
  "match_star_close [] = None"
| "match_star_close (c # cs) =
     (case match_star_close cs of
        Some m \<Rightarrow> Some (c # m)
      | None \<Rightarrow> if c = CHR ''}'' then Some [c] else None)"

fun match_at :: "string \<Rightarrow> string option" where
  "match_at [] = None"
| "match_at (c # cs) =
     (if c = CHR ''{'' then map_option ((#) c) (match_star_close cs) else None)"

fun re_search :: "string \<Rightarrow> string option" where
  "re_search [] = match_at []"
| "re_search (c # cs) =
     (case match_at (c # cs) of Some m \<Rightarrow> Some m | None \<Rightarrow> re_search cs)"

definition extract_json :: "string \<Rightarrow> string" where
  "extract_json text =
     (case re_search (strip text) of Some m \<Rightarrow> m | None \<Rightarrow> ''{}'')"

section \<open>Decoded JSON values\<close>

text \<open>
  The values \<open>json.loads\<close> builds: \<open>None\<close>, \<open>bool\<close>, \<open>int\<close> (unbounded), \<open>float\<close>, \<open>str\<close>,
  \<open>list\<close> and \<open>dict\<close>. A dict keeps its insertion order and has each key once: it is an
  association list, and \<open>map_of\<close> is its lookup. Of a float the program only ever asks
  whether it is zero, so a float is its exact value (or one of the three special values the
  decoder accepts); \<open>-0.0\<close> is \<open>Finite 0\<close>.
\<close>

datatype pyfloat = Finite rat | PosInf | NegInf | NaN

datatype pyval =
    PNone
  | PBool bool
  | PInt int
  | PFloat pyfloat
  | PStr string
  | PList "pyval list"
  | PDict "(string \<times> pyval) list"

type_synonym pydict = "(string \<times> pyval) list"

text \<open>Python's truth value of an object, which \<open>x or y\<close> tests.\<close>

fun truthy :: "pyval \<Rightarrow> bool" where
  "truthy PNone = False"
| "truthy (PBool b) = b"
| "truthy (PInt n) = (n \<noteq> 0)"
| "truthy (PFloat f) = (f \<noteq> Finite 0)"
| "truthy (PStr s) = (s \<noteq> [])"
| "truthy (PList xs) = (xs \<noteq> [])"
| "truthy (PDict d) = (d \<noteq> [])"

text \<open>\<open>x or y\<close> (both operands here are lookups without effects).\<close>

definition py_or :: "pyval \<Rightarrow> pyval \<Rightarrow> pyval" where
  "py_or x y = (if truthy x then x else y)"

text \<open>\<open>d.get(k)\<close> and \<open>d.get(k, default)\<close>.\<close>

definition dict_get :: "pydict \<Rightarrow> string \<Rightarrow> pyval" where
  "dict_get d k = (case map_of d k of Some v \<Rightarrow> v | None \<Rightarrow> PNone)"

definition dict_get_or :: "pydict \<Rightarrow> string \<Rightarrow> pyval \<Rightarrow> pyval" where
  "dict_get_or d k dflt = (case map_of d k of Some v \<Rightarrow> v | None \<Rightarrow> dflt)"

section \<open>Schema Adapter\<close>

text \<open>
  \<^verbatim>\<open>
  def adapt_feedback(raw_dict):
      return {
          "topic": raw_dict.get("topic", "Unknown Topic"),
          "numerical_grade": raw_dict.get("numerical_grade") or raw_dict.get("overall_score", 0),
          "letter_grade": raw_dict.get("letter_grade", "N/A"),
          "score_content": raw_dict.get("score_content") or raw_dict.get("content_score", 0),
          "score_organization": raw_dict.get("score_organization") or raw_dict.get("organization_score", 0),
          "score_mechanics": raw_dict.get("score_mechanics") or raw_dict.get("mechanics_score", 0),
          "calculation": raw_dict.get("calculation") or raw_dict.get("score_breakdown", ""),
          "strengths": raw_dict.get("strengths", []),
          "weaknesses": raw_dict.get("weaknesses", []),
          "improvement_suggestions": raw_dict.get("improvement_suggestions", []),
          "mechanics_issues": raw_dict.get("mechanics_issues", []),
      }
  \<close>
\<close>

definition adapt_feedback :: "pydict \<Rightarrow> pydict" where
  "adapt_feedback raw_dict =
     [(''topic'', dict_get_or raw_dict ''topic'' (PStr ''Unknown Topic'')),
      (''numerical_grade'',
         py_or (dict_get raw_dict ''numerical_grade'')
               (dict_get_or raw_dict ''overall_score'' (PInt 0))),
      (''letter_grade'', dict_get_or raw_dict ''letter_grade'' (PStr ''N/A'')),
      (''score_content'',
         py_or (dict_get raw_dict ''score_content'')
               (dict_get_or raw_dict ''content_score'' (PInt 0))),
      (''score_organization'',
         py_or (dict_get raw_dict ''score_organization'')
               (dict_get_or raw_dict ''organization_score'' (PInt 0))),
      (''score_mechanics'',
         py_or (dict_get raw_dict ''score_mechanics'')
               (dict_get_or raw_dict ''mechanics_score'' (PInt 0))),
      (''calculation'',
         py_or (dict_get raw_dict ''calculation'')
               (dict_get_or raw_dict ''score_breakdown'' (PStr []))),
      (''strengths'', dict_get_or raw_dict ''strengths'' (PList [])),
      (''weaknesses'', dict_get_or raw_dict ''weaknesses'' (PList [])),
      (''improvement_suggestions'', dict_get_or raw_dict ''improvement_suggestions'' (PList [])),
      (''mechanics_issues'', dict_get_or raw_dict ''mechanics_issues'' (PList []))]"

text \<open>The eleven field names of the schema, in the order the class declares them.\<close>

definition schema_fields :: "string list" where
  "schema_fields =
     [''topic'', ''numerical_grade'', ''letter_grade'', ''score_content'',
      ''score_organization'', ''score_mechanics'', ''calculation'', ''strengths'',
      ''weaknesses'', ''improvement_suggestions'', ''mechanics_issues'']"

section \<open>Schema and Result Assembler\<close>

datatype error =
    ValidationError
  | JSONDecodeError
  | RecursionError
  | AttributeError
  | EOFError
  | OtherError string

record LessonFeedback =
  topic :: string
  numerical_grade :: int
  letter_grade :: string
  score_content :: int
  score_organization :: int
  score_mechanics :: int
  calculation :: string
  strengths :: "string list"
  weaknesses :: "string list"
  improvement_suggestions :: "string list"
  mechanics_issues :: "string list"

text \<open>
  \<open>LessonFeedback(**adapted_dict)\<close> runs the validation of the model class, which is the
  library's. A value that already has the declared type of its field (an \<open>int\<close> that is not
  a \<open>bool\<close>, a \<open>str\<close>, a \<open>list\<close> of \<open>str\<close>) is accepted as it is. What the library does with
  any other value (convert it or reject it) depends on its version and mode and is left
  open: it is the \<open>coercions\<close> argument, \<open>None\<close> for a rejected value. A rejected or
  missing field raises the one \<open>ValidationError\<close>.
\<close>

record coercions =
  coerce_int :: "pyval \<Rightarrow> int option"
  coerce_str :: "pyval \<Rightarrow> string option"
  coerce_list :: "pyval \<Rightarrow> pyval list option"

definition validate_int :: "coercions \<Rightarrow> pyval \<Rightarrow> error + int" where
  "validate_int P v =
     (case v of
        PInt n \<Rightarrow> Inr n
      | _ \<Rightarrow> (case coerce_int P v of Some n \<Rightarrow> Inr n | None \<Rightarrow> Inl ValidationError))"

definition validate_str :: "coercions \<Rightarrow> pyval \<Rightarrow> error + string" where
  "validate_str P v =
     (case v of
        PStr s \<Rightarrow> Inr s
      | _ \<Rightarrow> (case coerce_str P v of Some s \<Rightarrow> Inr s | None \<Rightarrow> Inl ValidationError))"

text \<open>Sequencing of steps that may raise.\<close>

definition and_then :: "'e + 'a \<Rightarrow> ('a \<Rightarrow> 'e + 'b) \<Rightarrow> 'e + 'b" where
  "and_then r f = (case r of Inl e \<Rightarrow> Inl e | Inr x \<Rightarrow> f x)"

fun validate_items :: "coercions \<Rightarrow> pyval list \<Rightarrow> error + string list" where
  "validate_items P [] = Inr []"
| "validate_items P (v # vs) =
     and_then (validate_str P v) (\<lambda>s.
     and_then (validate_items P vs) (\<lambda>ss. Inr (s # ss)))"

definition validate_str_list :: "coercions \<Rightarrow> pyval \<Rightarrow> error + string list" where
  "validate_str_list P v =
     (case v of
        PList xs \<Rightarrow> validate_items P xs
      | _ \<Rightarrow> (case coerce_list P v of
                Some xs \<Rightarrow> validate_items P xs
              | None \<Rightarrow> Inl ValidationError))"

definition field :: "pydict \<Rightarrow> string \<Rightarrow> (pyval \<Rightarrow> error + 'a) \<Rightarrow> error + 'a" where
  "field kwargs k validate =
     (case map_of kwargs k of None \<Rightarrow> Inl ValidationError | Some v \<Rightarrow> validate v)"

definition LessonFeedback_init :: "coercions \<Rightarrow> pydict \<Rightarrow> error + LessonFeedback" where
  "LessonFeedback_init P kwargs =
     and_then (field kwargs ''topic'' (validate_str P)) (\<lambda>f1.
     and_then (field kwargs ''numerical_grade'' (validate_int P)) (\<lambda>f2.
     and_then (field kwargs ''letter_grade'' (validate_str P)) (\<lambda>f3.
     and_then (field kwargs ''score_content'' (validate_int P)) (\<lambda>f4.
     and_then (field kwargs ''score_organization'' (validate_int P)) (\<lambda>f5.
     and_then (field kwargs ''score_mechanics'' (validate_int P)) (\<lambda>f6.
     and_then (field kwargs ''calculation'' (validate_str P)) (\<lambda>f7.
     and_then (field kwargs ''strengths'' (validate_str_list P)) (\<lambda>f8.
     and_then (field kwargs ''weaknesses'' (validate_str_list P)) (\<lambda>f9.
     and_then (field kwargs ''improvement_suggestions'' (validate_str_list P)) (\<lambda>f10.
     and_then (field kwargs ''mechanics_issues'' (validate_str_list P)) (\<lambda>f11.
     Inr \<lparr>topic = f1, numerical_grade = f2, letter_grade = f3, score_content = f4,
          score_organization = f5, score_mechanics = f6, calculation = f7,
          strengths = f8, weaknesses = f9, improvement_suggestions = f10,
          mechanics_issues = f11\<rparr>)))))))))))"

section \<open>Prompt Builder\<close>

text \<open>
  \<open>prompt.format_messages(query=query)\<close> renders the two message templates of the
  \<open>ChatPromptTemplate\<close>: the system text, which has no placeholder, and \<open>"{query}"\<close>, which
  becomes the query itself. \<open>system_prompt\<close> is the system text of the web application,
  character for character.
\<close>

datatype message = SystemMessage string | HumanMessage string

definition system_prompt :: string where
  \<open>system_prompt =
     ''\<newline>'' @
     ''You are an expert educator and evaluator. Evaluate a lesson explanation.\<newline>'' @
     ''\<newline>'' @
     ''Rubric (scores 0-100 before weighting):\<newline>'' @
     ''- Content: 80%\<newline>'' @
     ''- Organization: 15%\<newline>'' @
     ''- Mechanics: 5% (spelling/grammar)\<newline>'' @
     ''\<newline>'' @
     ''Requirements:\<newline>'' @
     ''1. Provide ONLY a JSON object with the following keys exactly:\<newline>'' @
     ''   topic, numerical_grade, letter_grade, score_content, score_organization, \<newline>'' @
     ''   score_mechanics, calculation, strengths, weaknesses, improvement_suggestions, mechanics_issues\<newline>'' @
     ''2. Numeric grade = round(0.8*score_content + 0.15*score_organization + 0.05*score_mechanics)\<newline>'' @
     ''3. Include a short 'calculation' string showing weighted calculation\<newline>'' @
     ''4. Up to 5 mechanics issues (spelling/grammar), empty list if none\<newline>'' @
     ''5. Emphasize content: strengths, weaknesses, and at least 3 improvement suggestions must focus on conceptual clarity and organization\<newline>'' @
     ''\<newline>'' @
     ''ALWAYS respond with VALID JSON only. Do NOT include explanations, markdown fences, or extra text.\<newline>''\<close>

text \<open>
  The system text of the console program. Its one character outside ASCII, a dash
  (U+2014), is the three bytes of its encoding.
\<close>

definition console_system_prompt :: string where
  \<open>console_system_prompt =
     ''\<newline>'' @
     ''You are an expert educator and evaluator. The user will provide a lesson explanation on a topic.\<newline>'' @
     ''\<newline>'' @
     ''Evaluate using this component rubric (all component scores are expressed on a 0-100 scale *before* weighting):\<newline>'' @
     ''- Content (weight 80%): accuracy, depth of understanding, meaningful examples, correct use of concepts.\<newline>'' @
     ''- Organization (weight 15%): logical flow, structure, clear progression, signposting.\<newline>'' @
     ''- Mechanics (weight 5%): spelling, grammar, punctuation. Mechanics should only slightly influence the final grade.\<newline>'' @
     ''  - Mechanics deductions must be small: mechanics can change the final numeric grade by at most +/- 7 points total.\<newline>'' @
     ''  - If mechanics seriously interfere with comprehension, note that explicitly and it may justify a larger deduction, but explain why.\<newline>'' @
     ''\<newline>'' @
     ''Requirements for your response:\<newline>'' @
     ''1. Provide all fields exactly in the Pydantic schema that follows format_instructions. Do not output any other text.\<newline>'' @
     ''2. For numeric grade: compute a weighted total = round(0.80*score_content + 0.15*score_organization + 0.05*score_mechanics).\<newline>'' @
     ''3. Include a short 'calculation' string showing the three component scores and the weighted computation (example: "0.8*86 + 0.15*78 + 0.05*92 = 85").\<newline>'' @
     ''4. Provide up to 5 specific mechanics issues (spelling/grammar) with short excerpts or corrections in 'mechanics_issues'. If none, return an empty list.\<newline>'' @
     ''5. Emphasize content: if two explanations only differ by minor spelling mistakes, the numerical grade should primarily reflect content differences and should not be identical only because the model ignored mechanics '' @ [CHR 0xE2, CHR 0x80, CHR 0x94] @ '' your calculation must show the small mechanics effect.\<newline>'' @
     ''6. Return strengths, weaknesses, and at least 3 concrete improvement suggestions focused on conceptual clarity and organization (not only grammar).\<newline>'' @
     ''\<newline>'' @
     ''Respond only in the structured format that the parser expects.\<newline>'' @
     ''            ''\<close>

text \<open>
  \<^verbatim>\<open>
  query = f"Topic: {topic}\n\nUser's explanation:\n{explanation}\n\nPlease evaluate according to the rubric."
  \<close>
\<close>

definition query :: "string \<Rightarrow> string \<Rightarrow> string" where
  \<open>query tp expl =
     ''Topic: '' @ tp @ ''\<newline>\<newline>User's explanation:\<newline>'' @ expl @
     ''\<newline>\<newline>Please evaluate according to the rubric.''\<close>

definition format_messages :: "string \<Rightarrow> string \<Rightarrow> message list" where
  "format_messages sys q = [SystemMessage sys, HumanMessage q]"

fun content :: "message \<Rightarrow> string" where
  "content (SystemMessage s) = s"
| "content (HumanMessage s) = s"

section \<open>The web handler\<close>

text \<open>
  The LLM Gateway is \<open>llm.invoke\<close>: it is given the messages and returns the text of the
  reply, or raises. The world records what the program did to its surroundings: the
  requests sent to the gateway, in order, and the lines printed on the console.
\<close>

type_synonym gateway = "message list \<Rightarrow> error + string"

record world =
  calls :: "message list list"
  printed :: "string list"

definition invoke :: "gateway \<Rightarrow> message list \<Rightarrow> world \<Rightarrow> (error + string) \<times> world" where
  "invoke llm msgs w = (llm msgs, w\<lparr>calls := calls w @ [msgs]\<rparr>)"

text \<open>What the handler hands to the template: an error message or the feedback.\<close>

datatype page = ErrorPage string | FeedbackPage LessonFeedback

text \<open>
  \<open>json.loads\<close> is the standard library's decoder: it returns the decoded value or raises.
  \<open>json.JSONDecodeError\<close> is what it raises where it finds the text not to be valid JSON;
  it raises \<open>RecursionError\<close> when the arrays and objects of the text are nested deeper
  than the interpreter allows, which it notices before it has read the text to the end. It
  is the \<open>loads\<close> argument below. The handler catches \<open>JSONDecodeError\<close> and nothing else.

  \<open>post_gateway\<close> is the handler from the raw text of the reply on:
  \<^verbatim>\<open>
    if not raw_text or not raw_text.strip():
        return templates.TemplateResponse("index.html", {"request": request, "error": "Empty response from LLM."})
    json_text = extract_json(raw_text)
    try:
        raw_dict = json.loads(json_text)
    except json.JSONDecodeError:
        raw_dict = {}
    adapted_dict = adapt_feedback(raw_dict)
    feedback = LessonFeedback(**adapted_dict)
    return templates.TemplateResponse("index.html", {"request": request, "feedback": feedback})
  \<close>
  A decoded value that is not a dict has no \<open>get\<close>: \<open>adapt_feedback\<close> raises
  \<open>AttributeError\<close> on it.
\<close>

type_synonym decoder = "string \<Rightarrow> error + pyval"

definition post_gateway :: "decoder \<Rightarrow> coercions \<Rightarrow> string \<Rightarrow> error + page" where
  "post_gateway loads P raw_text =
     (if blank raw_text then Inr (ErrorPage ''Empty response from LLM.'')
      else
        let json_text = extract_json raw_text;
            decoded = (case loads json_text of
                         Inl JSONDecodeError \<Rightarrow> Inr (PDict [])
                       | r \<Rightarrow> r)
        in and_then decoded (\<lambda>raw_dict.
             case raw_dict of
               PDict d \<Rightarrow>
                 and_then (LessonFeedback_init P (adapt_feedback d)) (\<lambda>feedback.
                   Inr (FeedbackPage feedback))
             | _ \<Rightarrow> Inl AttributeError))"

text \<open>
  \<^verbatim>\<open>
  async def evaluate_lesson(request, topic = Form(...), explanation = Form(...)):
      if not explanation.strip():
          return templates.TemplateResponse("index.html", {"request": request, "error": "Explanation cannot be empty."})
      query = f"Topic: {topic}..."
      raw_response = llm.invoke(prompt.format_messages(query=query))
      raw_text = getattr(raw_response, "content", raw_response)
      ...
  \<close>
\<close>

definition evaluate_lesson ::
  "decoder \<Rightarrow> coercions \<Rightarrow> gateway \<Rightarrow> string \<Rightarrow> string \<Rightarrow> world \<Rightarrow> (error + page) \<times> world"
where
  "evaluate_lesson loads P llm tp expl w =
     (if blank expl then (Inr (ErrorPage ''Explanation cannot be empty.''), w)
      else
        let (raw_response, w') = invoke llm (format_messages system_prompt (query tp expl)) w
        in (and_then raw_response (post_gateway loads P), w'))"

section \<open>The console program\<close>

text \<open>
  \<open>str.lower\<close>, as far as the comparison of its result with \<open>"done"\<close> goes: an ASCII capital
  letter becomes the small one and every other byte stays. No character outside ASCII has
  a lower case made of the letters d, o, n and e, so a text with such a character differs
  from \<open>"done"\<close> after \<open>lower()\<close> as its encoding does here. Then \<open>str(n)\<close> for an integer.
\<close>

definition py_lower :: "char \<Rightarrow> char" where
  "py_lower c =
     (let n = of_char c :: nat
      in if 65 \<le> n \<and> n \<le> 90 then char_of (n + 32) else c)"

fun str_nat :: "nat \<Rightarrow> string" where
  "str_nat n =
     (if n < 10 then [char_of (48 + n)]
      else str_nat (n div 10) @ [char_of (48 + n mod 10)])"

definition str_int :: "int \<Rightarrow> string" where
  "str_int i = (if i < 0 then CHR ''-'' # str_nat (nat (- i)) else str_nat (nat i))"

fun join :: "string \<Rightarrow> string list \<Rightarrow> string" where
  "join sep [] = []"
| "join sep [x] = x"
| "join sep (x # y # ys) = x @ sep @ join sep (y # ys)"

definition print :: "string \<Rightarrow> world \<Rightarrow> world" where
  "print s w = w\<lparr>printed := printed w @ [s]\<rparr>"

text \<open>
  The standard input is the list of the lines \<open>input()\<close> will return; after the last one
  \<open>input()\<close> raises \<open>EOFError\<close>. The prompt \<open>input\<close> is given goes to the console as a
  printed line does. \<open>read_lines\<close> is the loop of
  \<open>get_explanation_from_user\<close>:
  \<^verbatim>\<open>
    lines = []
    while True:
        try:
            text = input()
        except EOFError:
            break
        if text.strip().lower() == "done":
            break
        lines.append(text)
  \<close>
\<close>

fun read_lines :: "string list \<Rightarrow> string list" where
  "read_lines [] = []"
| "read_lines (text # rest) =
     (if map py_lower (strip text) = ''done'' then [] else text # read_lines rest)"

definition get_explanation_from_user ::
  "string list \<Rightarrow> world \<Rightarrow> (error + string \<times> string) \<times> world"
where
  \<open>get_explanation_from_user stdin w =
     (let w1 = print ''Welcome to the content-focused Lesson Evaluator.'' w;
          w2 = print ''Enter the topic you'll explain: '' w1
      in case stdin of
           [] \<Rightarrow> (Inl EOFError, w2)
         | first # rest \<Rightarrow>
             let tp = strip first;
                 w3 = print ''\<newline>Begin explaining your topic. Type 'DONE' on a new line when you are finished.\<newline>'' w2;
                 expl = join ''\<newline>'' (read_lines rest)
             in (Inr (tp, expl), w3))\<close>

definition grade_explanation ::
  "gateway \<Rightarrow> string \<Rightarrow> string \<Rightarrow> world \<Rightarrow> (error + string) \<times> world"
where
  "grade_explanation llm tp expl w =
     invoke llm (format_messages console_system_prompt (query tp expl)) w"

text \<open>
  \<open>display_feedback\<close> prints the parsed feedback, or, when \<open>parser.parse\<close> raises, the
  exception and the raw text. \<open>parser.parse\<close> is the library's output parser: the
  \<open>parse\<close> argument, with \<open>Inl\<close> the text of the exception.
\<close>

definition bullets :: "string list \<Rightarrow> world \<Rightarrow> world" where
  "bullets xs w = fold (\<lambda>x. print ('' - '' @ x)) xs w"

definition display_feedback :: "(string \<Rightarrow> string + LessonFeedback) \<Rightarrow> string \<Rightarrow> world \<Rightarrow> world" where
  "display_feedback parse raw w =
     (case parse raw of
        Inr feedback \<Rightarrow>
          (let w1 = print ''===== Lesson Evaluation ====='' w;
               w2 = print (''Topic: '' @ topic feedback) w1;
               w3 = print (''Numerical Grade: '' @ str_int (numerical_grade feedback) @ ''/100'') w2;
               w4 = print (''Letter Grade: '' @ letter_grade feedback) w3;
               w5 = print (''Calculation: '' @ calculation feedback) w4;
               w6 = print ''\<newline>Component scores (0-100 before weighting):'' w5;
               w7 = print ('' - Content: '' @ str_int (score_content feedback)) w6;
               w8 = print ('' - Organization: '' @ str_int (score_organization feedback)) w7;
               w9 = print ('' - Mechanics: '' @ str_int (score_mechanics feedback)) w8;
               w10 = bullets (strengths feedback) (print ''\<newline>Strengths:'' w9);
               w11 = bullets (weaknesses feedback) (print ''\<newline>Weaknesses:'' w10);
               w12 = bullets (improvement_suggestions feedback)
                       (print ''\<newline>Suggestions for Improvement (conceptual/structural):'' w11);
               w13 = print ''\<newline>Specific mechanics issues (up to 5):'' w12;
               w14 = (if mechanics_issues feedback \<noteq> []
                      then bullets (mechanics_issues feedback) w13
                      else print '' - None noted'' w13)
           in print ''==============================='' w14)
      | Inl e \<Rightarrow>
          print (''Raw response content: '' @ raw) (print (''Error parsing response: '' @ e) w))"

text \<open>
  \<^verbatim>\<open>
  def main():
      topic, explanation = get_explanation_from_user()
      if not explanation.strip():
          print("No explanation provided. Exiting.")
          return
      raw = grade_explanation(topic, explanation)
      display_feedback(raw)
  \<close>
\<close>

definition main ::
  "(string \<Rightarrow> string + LessonFeedback) \<Rightarrow> gateway \<Rightarrow> string list \<Rightarrow> world \<Rightarrow> (error + unit) \<times> world"
where
  "main parse llm stdin w =
     (case get_explanation_from_user stdin w of
        (Inl e, w1) \<Rightarrow> (Inl e, w1)
      | (Inr (tp, expl), w1) \<Rightarrow>
          if blank expl then (Inr (), print ''No explanation provided. Exiting.'' w1)
          else
            (case grade_explanation llm tp expl w1 of
               (Inl e, w2) \<Rightarrow> (Inl e, w2)
             | (Inr raw, w2) \<Rightarrow> (Inr (), display_feedback parse raw w2)))"

section \<open>The specification's wording, for comparison\<close>

text \<open>
  The specification's description of what \<open>extract_json\<close> returns: the substring that
  starts at the first opening brace and ends at the last closing brace.
  \<open>find_first c t\<close> is the index of the first \<open>c\<close> in \<open>t\<close> (\<open>length t\<close> when there is
  none), \<open>to_last c t\<close> is \<open>t\<close> cut after its last \<open>c\<close> (empty when there is none).
\<close>

definition find_first :: "char \<Rightarrow> string \<Rightarrow> nat" where
  "find_first c t = length (takeWhile (\<lambda>x. x \<noteq> c) t)"

definition to_last :: "char \<Rightarrow> string \<Rightarrow> string" where
  "to_last c t = rev (dropWhile (\<lambda>x. x \<noteq> c) (rev t))"

definition brace_span :: "string \<Rightarrow> string" where
  "brace_span t = drop (find_first (CHR ''{'') t) (to_last (CHR ''}'') t)"

text \<open>A closing brace occurs somewhere after the first opening brace.\<close>

definition closed_after_open :: "string \<Rightarrow> bool" where
  "closed_after_open t = (CHR ''}'' \<in> set (drop (find_first (CHR ''{'') t) t))"

text \<open>
  The resolution order of the specification for a field with an alias: the value under the
  exact key; else the value under the alias key; else the default.
\<close>

definition spec_resolve :: "pydict \<Rightarrow> string \<Rightarrow> string \<Rightarrow> pyval \<Rightarrow> pyval" where
  "spec_resolve d k alias dflt =
     (case map_of d k of
        Some v \<Rightarrow> v
      | None \<Rightarrow> (case map_of d alias of Some a \<Rightarrow> a | None \<Rightarrow> dflt))"

text \<open>The same for a field without an alias: the value under the key; else the default.\<close>

definition spec_lookup :: "pydict \<Rightarrow> string \<Rightarrow> pyval \<Rightarrow> pyval" where
  "spec_lookup d k dflt = (case map_of d k of Some v \<Rightarrow> v | None \<Rightarrow> dflt)"

text \<open>The key is missing from the mapping, or the value under it is truthy.\<close>

definition usable :: "pydict \<Rightarrow> string \<Rightarrow> bool" where
  "usable d k = (case map_of d k of None \<Rightarrow> True | Some v \<Rightarrow> truthy v)"

text \<open>The text of a composed request: the texts of its messages, one after the other.\<close>

definition request_text :: "message list \<Rightarrow> string" where
  "request_text msgs = concat (map content msgs)"

text \<open>
  A reply that is not valid JSON and on which \<open>json.loads\<close> raises \<open>RecursionError\<close>: an
  object whose one value opens 100000 arrays and closes none.
\<close>

definition deep_reply :: string where
  \<open>deep_reply = ''{"a":'' @ replicate 100000 (CHR ''['') @ ''}''\<close>

section \<open>Properties of the Response Extractor\<close>

subsection \<open>The matcher computes the span\<close>

lemma to_last_Cons:
  "to_last c (x # xs) = (if c \<in> set xs then x # to_last c xs else if x = c then [x] else [])"
  by (auto simp: to_last_def dropWhile_append)

lemma match_star_close_eq:
  "match_star_close s =
     (if CHR ''}'' \<in> set s then Some (to_last (CHR ''}'') s) else None)"
  by (induction s) (auto simp: to_last_Cons)

lemma re_search_eq:
  "re_search s = (if closed_after_open s then Some (brace_span s) else None)"
proof (induction s)
  case Nil
  then show ?case by (simp add: closed_after_open_def find_first_def)
next
  case (Cons c cs)
  show ?case
  proof (cases "c = CHR ''{''")
    case True
    have "\<not> closed_after_open cs" if "CHR ''}'' \<notin> set cs"
      using that set_drop_subset [of "find_first (CHR ''{'') cs" cs]
      by (auto simp: closed_after_open_def)
    with True Cons show ?thesis
      by (auto simp: match_star_close_eq closed_after_open_def find_first_def
          brace_span_def to_last_Cons)
  next
    case False
    with Cons show ?thesis
      by (auto simp: closed_after_open_def find_first_def brace_span_def to_last_Cons
          dest: in_set_dropD)
  qed
qed

subsection \<open>The span, taken apart\<close>

lemma to_last_snoc_split:
  "c \<in> set t \<Longrightarrow> \<exists>mid post. t = mid @ c # post \<and> c \<notin> set post \<and> to_last c t = mid @ [c]"
proof (induction t)
  case Nil
  then show ?case by simp
next
  case (Cons x xs)
  show ?case
  proof (cases "c \<in> set xs")
    case True
    with Cons.IH obtain mid post where
      "xs = mid @ c # post" "c \<notin> set post" "to_last c xs = mid @ [c]" by blast
    with True have "x # xs = (x # mid) @ c # post \<and> c \<notin> set post \<and>
        to_last c (x # xs) = (x # mid) @ [c]"
      by (simp add: to_last_Cons)
    then show ?thesis by blast
  next
    case False
    with Cons.prems have "x = c" by simp
    with False have "x # xs = [] @ c # xs \<and> c \<notin> set xs \<and> to_last c (x # xs) = [] @ [c]"
      by (simp add: to_last_Cons)
    then show ?thesis by blast
  qed
qed

lemma brace_span_split:
  assumes "closed_after_open t"
  shows "\<exists>pre mid post. t = pre @ CHR ''{'' # mid @ CHR ''}'' # post \<and>
           CHR ''{'' \<notin> set pre \<and> CHR ''}'' \<notin> set post \<and>
           brace_span t = CHR ''{'' # mid @ [CHR ''}'']"
proof -
  define pre where "pre = takeWhile (\<lambda>x. x \<noteq> CHR ''{'') t"
  define rest where "rest = dropWhile (\<lambda>x. x \<noteq> CHR ''{'') t"
  have t: "t = pre @ rest" by (simp add: pre_def rest_def)
  have pre: "CHR ''{'' \<notin> set pre"
    using set_takeWhileD [of "CHR ''{''" "\<lambda>x. x \<noteq> CHR ''{''" t] by (auto simp: pre_def)
  have len: "find_first (CHR ''{'') t = length pre" by (simp add: find_first_def pre_def)
  have drop: "drop (length pre) t = rest" by (simp add: pre_def rest_def dropWhile_eq_drop)
  from assms have in_rest: "CHR ''}'' \<in> set rest"
    by (simp add: closed_after_open_def len drop)
  then have "rest \<noteq> []" by auto
  then have "hd rest = CHR ''{''"
    using hd_dropWhile [of "\<lambda>x. x \<noteq> CHR ''{''" t] by (simp add: rest_def)
  with \<open>rest \<noteq> []\<close> obtain body where rest: "rest = CHR ''{'' # body" by (cases rest) auto
  with in_rest have "CHR ''}'' \<in> set body" by simp
  from to_last_snoc_split [OF this] obtain mid post where
    body: "body = mid @ CHR ''}'' # post" "CHR ''}'' \<notin> set post"
      "to_last (CHR ''}'') body = mid @ [CHR ''}'']" by blast
  have "to_last (CHR ''}'') t = pre @ CHR ''{'' # mid @ [CHR ''}'']"
    using t rest body \<open>CHR ''}'' \<in> set body\<close>
    by (induction pre arbitrary: t) (auto simp: to_last_Cons)
  then have "brace_span t = CHR ''{'' # mid @ [CHR ''}'']"
    by (simp add: brace_span_def len)
  with t rest body pre show ?thesis by blast
qed

lemma no_open_not_closed:
  assumes "CHR ''{'' \<notin> set t"
  shows "\<not> closed_after_open t"
proof -
  from assms have "takeWhile (\<lambda>x. x \<noteq> CHR ''{'') t = t"
    by (auto simp: takeWhile_eq_all_conv)
  then have "find_first (CHR ''{'') t = length t" by (simp only: find_first_def)
  then show ?thesis by (simp add: closed_after_open_def)
qed

lemma set_lstrip: "set (lstrip s) \<subseteq> set s"
proof (induction s rule: lstrip.induct)
  case (1 s)
  show ?case
  proof (cases "find (\<lambda>w. prefix w s) whitespace")
    case None
    then show ?thesis by (subst lstrip.simps) simp
  next
    case (Some w)
    with "1.IH" have "set (lstrip (drop (length w) s)) \<subseteq> set (drop (length w) s)" by simp
    also have "\<dots> \<subseteq> set s" by (rule set_drop_subset)
    finally show ?thesis using Some by (subst lstrip.simps) simp
  qed
qed

lemma set_rstrip: "set (rstrip s) \<subseteq> set s"
proof (induction s rule: rstrip.induct)
  case (1 s)
  show ?case
  proof (cases "find (\<lambda>w. suffix w s) whitespace")
    case None
    then show ?thesis by (subst rstrip.simps) simp
  next
    case (Some w)
    with "1.IH" have "set (rstrip (take (length s - length w) s)) \<subseteq>
        set (take (length s - length w) s)" by simp
    also have "\<dots> \<subseteq> set s" by (rule set_take_subset)
    finally show ?thesis using Some by (subst rstrip.simps) simp
  qed
qed

lemma set_strip_subset: "set (strip t) \<subseteq> set t"
  using set_rstrip [of "lstrip t"] set_lstrip [of t] by (auto simp: strip_def)

lemma strip_braced: "strip (CHR ''{'' # ys @ ''}'') = CHR ''{'' # ys @ ''}''"
proof -
  have "find (\<lambda>w. prefix w (CHR ''{'' # ys @ ''}'')) whitespace = None"
    by (simp add: whitespace_def)
  then have l: "lstrip (CHR ''{'' # ys @ ''}'') = CHR ''{'' # ys @ ''}''"
    by (subst lstrip.simps) simp
  have "find (\<lambda>w. suffix w (CHR ''{'' # ys @ ''}'')) whitespace = None"
    by (simp add: whitespace_def suffix_to_prefix)
  then have "rstrip (CHR ''{'' # ys @ ''}'') = CHR ''{'' # ys @ ''}''"
    by (subst rstrip.simps) simp
  with l show ?thesis by (simp add: strip_def)
qed

lemma extract_json_braced: "extract_json (CHR ''{'' # ys @ ''}'') = CHR ''{'' # ys @ ''}''"
proof -
  have c: "closed_after_open (CHR ''{'' # ys @ ''}'')"
    by (simp add: closed_after_open_def find_first_def)
  have "brace_span (CHR ''{'' # ys @ ''}'') = CHR ''{'' # ys @ ''}''"
    by (simp add: brace_span_def find_first_def to_last_def)
  with c show ?thesis by (simp add: extract_json_def strip_braced re_search_eq)
qed

lemma deep_reply_braced:
  \<open>deep_reply = CHR ''{'' # (''"a":'' @ replicate 100000 (CHR ''['')) @ ''}''\<close>
  by (simp add: deep_reply_def)

text \<open>
  C1, as the code has it. When a closing brace follows the first opening brace of the
  trimmed text, \<open>extract_json\<close> returns the part of the trimmed text from its first opening
  brace (none before it) to its last closing brace (none after it). In every other case,
  and so whenever the text has no opening brace, it returns \<open>{}\<close>. On
  \<open>blah {"a":1} blah\<close> it returns \<open>{"a":1}\<close>.
\<close>

theorem extract_json_span:
  \<open>(closed_after_open (strip text) \<longrightarrow>
      (\<exists>pre mid post.
          strip text = pre @ CHR ''{'' # mid @ CHR ''}'' # post \<and>
          CHR ''{'' \<notin> set pre \<and> CHR ''}'' \<notin> set post \<and>
          extract_json text = CHR ''{'' # mid @ [CHR ''}''])) \<and>
   (\<not> closed_after_open (strip text) \<longrightarrow> extract_json text = ''{}'') \<and>
   (CHR ''{'' \<notin> set text \<longrightarrow> extract_json text = ''{}'') \<and>
   extract_json ''blah {"a":1} blah'' = ''{"a":1}''\<close>
proof (intro conjI impI)
  assume "closed_after_open (strip text)"
  then show "\<exists>pre mid post.
          strip text = pre @ CHR ''{'' # mid @ CHR ''}'' # post \<and>
          CHR ''{'' \<notin> set pre \<and> CHR ''}'' \<notin> set post \<and>
          extract_json text = CHR ''{'' # mid @ [CHR ''}'']"
    using brace_span_split [of "strip text"] by (simp add: extract_json_def re_search_eq)
next
  assume "\<not> closed_after_open (strip text)"
  then show "extract_json text = ''{}''" by (simp add: extract_json_def re_search_eq)
next
  assume "CHR ''{'' \<notin> set text"
  with set_strip_subset [of "text"] have "CHR ''{'' \<notin> set (strip text)" by blast
  then show "extract_json text = ''{}''"
    by (simp add: extract_json_def re_search_eq no_open_not_closed)
next
  show \<open>extract_json ''blah {"a":1} blah'' = ''{"a":1}''\<close>
    by (simp add: extract_json_def strip_def whitespace_def suffix_to_prefix)
qed

theorem extract_json_span_witness:
  \<open>closed_after_open (strip '' see {"a": {"b": 2}} end '') \<and>
   (\<exists>pre mid post.
      strip '' see {"a": {"b": 2}} end '' = pre @ CHR ''{'' # mid @ CHR ''}'' # post \<and>
      CHR ''{'' \<notin> set pre \<and> CHR ''}'' \<notin> set post \<and>
      extract_json '' see {"a": {"b": 2}} end '' = CHR ''{'' # mid @ [CHR ''}'']) \<and>
   \<not> closed_after_open (strip '' } { '') \<and>
   extract_json '' } { '' = ''{}'' \<and>
   CHR ''{'' \<notin> set ''no json here'' \<and>
   extract_json ''no json here'' = ''{}''\<close>
proof -
  have a: \<open>closed_after_open (strip '' see {"a": {"b": 2}} end '')\<close>
    by (simp add: closed_after_open_def strip_def whitespace_def suffix_to_prefix find_first_def)
  have b: \<open>\<not> closed_after_open (strip '' } { '')\<close>
    by (simp add: closed_after_open_def strip_def whitespace_def suffix_to_prefix find_first_def)
  have c: \<open>CHR ''{'' \<notin> set ''no json here''\<close> by simp
  have 1: \<open>\<exists>pre mid post.
      strip '' see {"a": {"b": 2}} end '' = pre @ CHR ''{'' # mid @ CHR ''}'' # post \<and>
      CHR ''{'' \<notin> set pre \<and> CHR ''}'' \<notin> set post \<and>
      extract_json '' see {"a": {"b": 2}} end '' = CHR ''{'' # mid @ [CHR ''}'']\<close>
    using a extract_json_span [of \<open>'' see {"a": {"b": 2}} end ''\<close>] by blast
  have 2: \<open>extract_json '' } { '' = ''{}''\<close>
    using b extract_json_span [of \<open>'' } { ''\<close>] by blast
  have 3: \<open>extract_json ''no json here'' = ''{}''\<close>
    using c extract_json_span [of \<open>''no json here''\<close>] by blast
  from a 1 b 2 c 3 show ?thesis by (intro conjI)
qed

text \<open>
  C1 as the specification words it fails on a text that has an opening brace and no closing
  brace after it: the result is \<open>{}\<close>, which is no part of the text.
\<close>

theorem extract_json_counterexample:
  "CHR ''{'' \<in> set (strip ''{'') \<and> extract_json ''{'' = ''{}'' \<and>
   \<not> sublist (extract_json ''{'') (strip ''{'')"
  by (simp add: extract_json_def strip_def whitespace_def suffix_to_prefix sublist_code)

section \<open>Properties of the Schema Adapter and the Result Assembler\<close>

text \<open>
  C10. Whatever mapping it is given, \<open>adapt_feedback\<close> returns a mapping whose keys are
  exactly the eleven field names of the schema, each once and in the order of the schema:
  topic, numerical_grade, letter_grade, score_content, score_organization,
  score_mechanics, calculation, strengths, weaknesses, improvement_suggestions,
  mechanics_issues. Any other key of the input is absent from the result.
\<close>

theorem adapt_feedback_keys:
  "map fst (adapt_feedback d) = schema_fields \<and>
   distinct (map fst (adapt_feedback d)) \<and>
   length (adapt_feedback d) = 11 \<and>
   dom (map_of (adapt_feedback d)) =
     {''topic'', ''numerical_grade'', ''letter_grade'', ''score_content'',
      ''score_organization'', ''score_mechanics'', ''calculation'', ''strengths'',
      ''weaknesses'', ''improvement_suggestions'', ''mechanics_issues''}"
  by (simp add: adapt_feedback_def schema_fields_def dom_map_of_conv_image_fst)

text \<open>
  C4. On the empty mapping the adapter fills every field with its default, and the
  assembler accepts the result, whatever the library does with values of other types: the
  feedback has grade 0, component scores 0, the empty calculation, four empty lists, the
  topic "Unknown Topic" and the letter grade "N/A".
\<close>

theorem empty_mapping_defaults:
  "adapt_feedback [] =
     [(''topic'', PStr ''Unknown Topic''), (''numerical_grade'', PInt 0),
      (''letter_grade'', PStr ''N/A''), (''score_content'', PInt 0),
      (''score_organization'', PInt 0), (''score_mechanics'', PInt 0),
      (''calculation'', PStr []), (''strengths'', PList []), (''weaknesses'', PList []),
      (''improvement_suggestions'', PList []), (''mechanics_issues'', PList [])] \<and>
   LessonFeedback_init P (adapt_feedback []) =
     Inr \<lparr>topic = ''Unknown Topic'', numerical_grade = 0, letter_grade = ''N/A'',
          score_content = 0, score_organization = 0, score_mechanics = 0,
          calculation = [], strengths = [], weaknesses = [],
          improvement_suggestions = [], mechanics_issues = []\<rparr>"
  by (simp add: adapt_feedback_def dict_get_def dict_get_or_def py_or_def
      LessonFeedback_init_def field_def and_then_def validate_int_def validate_str_def
      validate_str_list_def)

text \<open>
  C2. For numerical_grade, score_content, score_organization, score_mechanics and
  calculation: when \<open>raw_dict.get(key)\<close> is falsy, which it is for a missing key (\<open>None\<close>)
  and for a key holding 0, 0.0, False, null, an empty string, list or object alike, the
  adapted value is the value under the alias key, or the default when the alias is missing
  too. So \<open>{"numerical_grade": 0}\<close> is adapted exactly as the empty mapping is.
\<close>

theorem falsy_exact_value_falls_through:
  "(\<not> truthy (dict_get d ''numerical_grade'') \<longrightarrow>
      map_of (adapt_feedback d) ''numerical_grade'' =
        Some (dict_get_or d ''overall_score'' (PInt 0))) \<and>
   (\<not> truthy (dict_get d ''score_content'') \<longrightarrow>
      map_of (adapt_feedback d) ''score_content'' =
        Some (dict_get_or d ''content_score'' (PInt 0))) \<and>
   (\<not> truthy (dict_get d ''score_organization'') \<longrightarrow>
      map_of (adapt_feedback d) ''score_organization'' =
        Some (dict_get_or d ''organization_score'' (PInt 0))) \<and>
   (\<not> truthy (dict_get d ''score_mechanics'') \<longrightarrow>
      map_of (adapt_feedback d) ''score_mechanics'' =
        Some (dict_get_or d ''mechanics_score'' (PInt 0))) \<and>
   (\<not> truthy (dict_get d ''calculation'') \<longrightarrow>
      map_of (adapt_feedback d) ''calculation'' =
        Some (dict_get_or d ''score_breakdown'' (PStr []))) \<and>
   adapt_feedback [(''numerical_grade'', PInt 0)] = adapt_feedback []"
  by (simp add: adapt_feedback_def py_or_def dict_get_def dict_get_or_def)

theorem falsy_exact_value_falls_through_witness:
  "(let d = [(''numerical_grade'', PInt 0), (''overall_score'', PInt 50),
             (''score_content'', PFloat (Finite 0)),
             (''score_organization'', PBool False), (''organization_score'', PInt 7),
             (''score_mechanics'', PNone), (''mechanics_score'', PStr ''high''),
             (''calculation'', PStr []), (''score_breakdown'', PStr ''0.8*60'')]
    in \<not> truthy (dict_get d ''numerical_grade'') \<and>
       map_of (adapt_feedback d) ''numerical_grade'' = Some (PInt 50) \<and>
       \<not> truthy (dict_get d ''score_content'') \<and>
       map_of (adapt_feedback d) ''score_content'' = Some (PInt 0) \<and>
       \<not> truthy (dict_get d ''score_organization'') \<and>
       map_of (adapt_feedback d) ''score_organization'' = Some (PInt 7) \<and>
       \<not> truthy (dict_get d ''score_mechanics'') \<and>
       map_of (adapt_feedback d) ''score_mechanics'' = Some (PStr ''high'') \<and>
       \<not> truthy (dict_get d ''calculation'') \<and>
       map_of (adapt_feedback d) ''calculation'' = Some (PStr ''0.8*60''))"
  using falsy_exact_value_falls_through
    [of "[(''numerical_grade'', PInt 0), (''overall_score'', PInt 50),
          (''score_content'', PFloat (Finite 0)),
          (''score_organization'', PBool False), (''organization_score'', PInt 7),
          (''score_mechanics'', PNone), (''mechanics_score'', PStr ''high''),
          (''calculation'', PStr []), (''score_breakdown'', PStr ''0.8*60'')]"]
  by (simp add: dict_get_def dict_get_or_def)

text \<open>
  C3, as the code has it. For every mapping, each of the eleven target fields is resolved
  in the order of the specification, with one change. A field with an alias takes the
  value under its exact key when that key is missing or holds a truthy value, and then the
  order is: exact key, then alias (overall_score, content_score, organization_score,
  mechanics_score, score_breakdown), then default (0, or the empty string for
  calculation). When the value under the exact key is falsy the exact key is passed over:
  alias, then default. A field without an alias takes the value under its key, else its
  default: "Unknown Topic" for topic, "N/A" for letter_grade, the empty list for the four
  lists. With overall_score 77 and no numerical_grade key, the adapted numerical_grade
  is 77.
\<close>

theorem adapt_feedback_resolution:
  "(usable d ''numerical_grade'' \<longrightarrow>
      map_of (adapt_feedback d) ''numerical_grade'' =
        Some (spec_resolve d ''numerical_grade'' ''overall_score'' (PInt 0))) \<and>
   (usable d ''score_content'' \<longrightarrow>
      map_of (adapt_feedback d) ''score_content'' =
        Some (spec_resolve d ''score_content'' ''content_score'' (PInt 0))) \<and>
   (usable d ''score_organization'' \<longrightarrow>
      map_of (adapt_feedback d) ''score_organization'' =
        Some (spec_resolve d ''score_organization'' ''organization_score'' (PInt 0))) \<and>
   (usable d ''score_mechanics'' \<longrightarrow>
      map_of (adapt_feedback d) ''score_mechanics'' =
        Some (spec_resolve d ''score_mechanics'' ''mechanics_score'' (PInt 0))) \<and>
   (usable d ''calculation'' \<longrightarrow>
      map_of (adapt_feedback d) ''calculation'' =
        Some (spec_resolve d ''calculation'' ''score_breakdown'' (PStr []))) \<and>
   (map_of d ''numerical_grade'' = None \<and> map_of d ''overall_score'' = Some (PInt 77) \<longrightarrow>
      map_of (adapt_feedback d) ''numerical_grade'' = Some (PInt 77)) \<and>
   (\<not> usable d ''numerical_grade'' \<longrightarrow>
      map_of (adapt_feedback d) ''numerical_grade'' =
        Some (spec_lookup d ''overall_score'' (PInt 0))) \<and>
   (\<not> usable d ''score_content'' \<longrightarrow>
      map_of (adapt_feedback d) ''score_content'' =
        Some (spec_lookup d ''content_score'' (PInt 0))) \<and>
   (\<not> usable d ''score_organization'' \<longrightarrow>
      map_of (adapt_feedback d) ''score_organization'' =
        Some (spec_lookup d ''organization_score'' (PInt 0))) \<and>
   (\<not> usable d ''score_mechanics'' \<longrightarrow>
      map_of (adapt_feedback d) ''score_mechanics'' =
        Some (spec_lookup d ''mechanics_score'' (PInt 0))) \<and>
   (\<not> usable d ''calculation'' \<longrightarrow>
      map_of (adapt_feedback d) ''calculation'' =
        Some (spec_lookup d ''score_breakdown'' (PStr []))) \<and>
   map_of (adapt_feedback d) ''topic'' =
     Some (spec_lookup d ''topic'' (PStr ''Unknown Topic'')) \<and>
   map_of (adapt_feedback d) ''letter_grade'' =
     Some (spec_lookup d ''letter_grade'' (PStr ''N/A'')) \<and>
   map_of (adapt_feedback d) ''strengths'' = Some (spec_lookup d ''strengths'' (PList [])) \<and>
   map_of (adapt_feedback d) ''weaknesses'' = Some (spec_lookup d ''weaknesses'' (PList [])) \<and>
   map_of (adapt_feedback d) ''improvement_suggestions'' =
     Some (spec_lookup d ''improvement_suggestions'' (PList [])) \<and>
   map_of (adapt_feedback d) ''mechanics_issues'' =
     Some (spec_lookup d ''mechanics_issues'' (PList []))"
proof -
  have aliased:
    "usable d k \<longrightarrow>
       py_or (dict_get d k) (dict_get_or d a dflt) = spec_resolve d k a dflt"
    "\<not> usable d k \<longrightarrow>
       py_or (dict_get d k) (dict_get_or d a dflt) = spec_lookup d a dflt"
    for k a dflt
    by (auto simp: py_or_def dict_get_def dict_get_or_def spec_resolve_def spec_lookup_def
        usable_def split: option.splits)
  have plain: "dict_get_or d k dflt = spec_lookup d k dflt" for k dflt
    by (simp add: dict_get_or_def spec_lookup_def)
  have seventy_seven:
    "map_of d ''numerical_grade'' = None \<and> map_of d ''overall_score'' = Some (PInt 77) \<longrightarrow>
       py_or (dict_get d ''numerical_grade'') (dict_get_or d ''overall_score'' (PInt 0)) =
         PInt 77"
    by (simp add: py_or_def dict_get_def dict_get_or_def)
  show ?thesis
    using aliased seventy_seven by (simp add: adapt_feedback_def plain)
qed

theorem adapt_feedback_resolution_witness:
  "(let d = [(''overall_score'', PInt 77),
             (''score_content'', PInt 90), (''content_score'', PInt 1),
             (''organization_score'', PInt 60),
             (''calculation'', PStr ''0.8*90''), (''score_breakdown'', PStr ''other'')]
    in usable d ''numerical_grade'' \<and>
       map_of d ''numerical_grade'' = None \<and> map_of d ''overall_score'' = Some (PInt 77) \<and>
       map_of (adapt_feedback d) ''numerical_grade'' = Some (PInt 77) \<and>
       usable d ''score_content'' \<and>
       map_of (adapt_feedback d) ''score_content'' = Some (PInt 90) \<and>
       usable d ''score_organization'' \<and>
       map_of (adapt_feedback d) ''score_organization'' = Some (PInt 60) \<and>
       usable d ''score_mechanics'' \<and>
       map_of (adapt_feedback d) ''score_mechanics'' = Some (PInt 0) \<and>
       usable d ''calculation'' \<and>
       map_of (adapt_feedback d) ''calculation'' = Some (PStr ''0.8*90'') \<and>
       map_of (adapt_feedback d) ''topic'' = Some (PStr ''Unknown Topic'') \<and>
       map_of (adapt_feedback d) ''strengths'' = Some (PList [])) \<and>
   (let d = [(''numerical_grade'', PInt 0), (''overall_score'', PInt 5),
             (''score_content'', PFloat (Finite 0)),
             (''score_organization'', PBool False), (''organization_score'', PInt 7),
             (''score_mechanics'', PNone), (''mechanics_score'', PInt 3),
             (''calculation'', PStr []), (''score_breakdown'', PStr ''b''),
             (''topic'', PStr ''Tides''), (''letter_grade'', PStr ''B'')]
    in \<not> usable d ''numerical_grade'' \<and>
       map_of (adapt_feedback d) ''numerical_grade'' = Some (PInt 5) \<and>
       \<not> usable d ''score_content'' \<and>
       map_of (adapt_feedback d) ''score_content'' = Some (PInt 0) \<and>
       \<not> usable d ''score_organization'' \<and>
       map_of (adapt_feedback d) ''score_organization'' = Some (PInt 7) \<and>
       \<not> usable d ''score_mechanics'' \<and>
       map_of (adapt_feedback d) ''score_mechanics'' = Some (PInt 3) \<and>
       \<not> usable d ''calculation'' \<and>
       map_of (adapt_feedback d) ''calculation'' = Some (PStr ''b'') \<and>
       map_of (adapt_feedback d) ''topic'' = Some (PStr ''Tides'') \<and>
       map_of (adapt_feedback d) ''letter_grade'' = Some (PStr ''B''))"
  using adapt_feedback_resolution
    [of "[(''overall_score'', PInt 77),
          (''score_content'', PInt 90), (''content_score'', PInt 1),
          (''organization_score'', PInt 60),
          (''calculation'', PStr ''0.8*90''), (''score_breakdown'', PStr ''other'')]"]
    adapt_feedback_resolution
    [of "[(''numerical_grade'', PInt 0), (''overall_score'', PInt 5),
          (''score_content'', PFloat (Finite 0)),
          (''score_organization'', PBool False), (''organization_score'', PInt 7),
          (''score_mechanics'', PNone), (''mechanics_score'', PInt 3),
          (''calculation'', PStr []), (''score_breakdown'', PStr ''b''),
          (''topic'', PStr ''Tides''), (''letter_grade'', PStr ''B'')]"]
  by (simp add: usable_def spec_resolve_def spec_lookup_def)

text \<open>
  C3 with the exact key always first fails: with numerical_grade 0 under the exact key and
  overall_score 5 under the alias, the exact key is there and the adapted value is the
  alias's.
\<close>

theorem exact_key_first_counterexample:
  "map_of [(''numerical_grade'', PInt 0), (''overall_score'', PInt 5)] ''numerical_grade'' =
     Some (PInt 0) \<and>
   map_of (adapt_feedback [(''numerical_grade'', PInt 0), (''overall_score'', PInt 5)])
     ''numerical_grade'' = Some (PInt 5)"
  by (simp add: adapt_feedback_def py_or_def dict_get_def dict_get_or_def)

text \<open>
  C9. For topic, letter_grade, strengths, weaknesses, improvement_suggestions and
  mechanics_issues the default depends on the presence of the key alone. A value present
  under the key is the adapted value, falsy or not, and only a missing key gives the
  default: "Unknown Topic", "N/A", or the empty list. A mapping with the empty string as
  topic is adapted to the empty topic, not to "Unknown Topic", whereas an empty
  calculation gives way to the alias score_breakdown.
\<close>

theorem presence_based_defaults:
  "(map_of d ''topic'' = Some v1 \<longrightarrow> map_of (adapt_feedback d) ''topic'' = Some v1) \<and>
   (map_of d ''letter_grade'' = Some v2 \<longrightarrow>
      map_of (adapt_feedback d) ''letter_grade'' = Some v2) \<and>
   (map_of d ''strengths'' = Some v3 \<longrightarrow> map_of (adapt_feedback d) ''strengths'' = Some v3) \<and>
   (map_of d ''weaknesses'' = Some v4 \<longrightarrow>
      map_of (adapt_feedback d) ''weaknesses'' = Some v4) \<and>
   (map_of d ''improvement_suggestions'' = Some v5 \<longrightarrow>
      map_of (adapt_feedback d) ''improvement_suggestions'' = Some v5) \<and>
   (map_of d ''mechanics_issues'' = Some v6 \<longrightarrow>
      map_of (adapt_feedback d) ''mechanics_issues'' = Some v6) \<and>
   map_of (adapt_feedback ((''topic'', PStr []) # d)) ''topic'' = Some (PStr []) \<and>
   map_of (adapt_feedback [(''calculation'', PStr []), (''score_breakdown'', PStr ''b'')])
     ''calculation'' = Some (PStr ''b'') \<and>
   (map_of d ''topic'' = None \<longrightarrow>
      map_of (adapt_feedback d) ''topic'' = Some (PStr ''Unknown Topic'')) \<and>
   (map_of d ''letter_grade'' = None \<longrightarrow>
      map_of (adapt_feedback d) ''letter_grade'' = Some (PStr ''N/A'')) \<and>
   (map_of d ''strengths'' = None \<longrightarrow>
      map_of (adapt_feedback d) ''strengths'' = Some (PList [])) \<and>
   (map_of d ''weaknesses'' = None \<longrightarrow>
      map_of (adapt_feedback d) ''weaknesses'' = Some (PList [])) \<and>
   (map_of d ''improvement_suggestions'' = None \<longrightarrow>
      map_of (adapt_feedback d) ''improvement_suggestions'' = Some (PList [])) \<and>
   (map_of d ''mechanics_issues'' = None \<longrightarrow>
      map_of (adapt_feedback d) ''mechanics_issues'' = Some (PList []))"
  by (simp add: adapt_feedback_def py_or_def dict_get_def dict_get_or_def)

theorem presence_based_defaults_witness:
  "(let d = [(''topic'', PStr []), (''letter_grade'', PNone), (''strengths'', PList []),
             (''weaknesses'', PInt 0), (''improvement_suggestions'', PBool False),
             (''mechanics_issues'', PDict [])]
    in map_of d ''topic'' = Some (PStr []) \<and>
       map_of (adapt_feedback d) ''topic'' = Some (PStr []) \<and>
       map_of d ''letter_grade'' = Some PNone \<and>
       map_of (adapt_feedback d) ''letter_grade'' = Some PNone \<and>
       map_of d ''strengths'' = Some (PList []) \<and>
       map_of (adapt_feedback d) ''strengths'' = Some (PList []) \<and>
       map_of d ''weaknesses'' = Some (PInt 0) \<and>
       map_of (adapt_feedback d) ''weaknesses'' = Some (PInt 0) \<and>
       map_of d ''improvement_suggestions'' = Some (PBool False) \<and>
       map_of (adapt_feedback d) ''improvement_suggestions'' = Some (PBool False) \<and>
       map_of d ''mechanics_issues'' = Some (PDict []) \<and>
       map_of (adapt_feedback d) ''mechanics_issues'' = Some (PDict [])) \<and>
   (let d = [(''numerical_grade'', PInt 85), (''subject'', PStr ''Tides'')]
    in map_of d ''topic'' = None \<and>
       map_of (adapt_feedback d) ''topic'' = Some (PStr ''Unknown Topic'') \<and>
       map_of d ''letter_grade'' = None \<and>
       map_of (adapt_feedback d) ''letter_grade'' = Some (PStr ''N/A'') \<and>
       map_of d ''strengths'' = None \<and>
       map_of (adapt_feedback d) ''strengths'' = Some (PList []) \<and>
       map_of d ''weaknesses'' = None \<and>
       map_of (adapt_feedback d) ''weaknesses'' = Some (PList []) \<and>
       map_of d ''improvement_suggestions'' = None \<and>
       map_of (adapt_feedback d) ''improvement_suggestions'' = Some (PList []) \<and>
       map_of d ''mechanics_issues'' = None \<and>
       map_of (adapt_feedback d) ''mechanics_issues'' = Some (PList []))"
  using presence_based_defaults
    [of "[(''topic'', PStr []), (''letter_grade'', PNone), (''strengths'', PList []),
          (''weaknesses'', PInt 0), (''improvement_suggestions'', PBool False),
          (''mechanics_issues'', PDict [])]"
        "PStr []" PNone "PList []" "PInt 0" "PBool False" "PDict []"]
    presence_based_defaults
    [of "[(''numerical_grade'', PInt 85), (''subject'', PStr ''Tides'')]"]
  by simp

section \<open>Properties of the handlers\<close>

lemma evaluate_lesson_nonblank:
  "\<not> blank expl \<Longrightarrow>
     evaluate_lesson loads P llm tp expl w =
       (and_then (llm (format_messages system_prompt (query tp expl))) (post_gateway loads P),
        w\<lparr>calls := calls w @ [format_messages system_prompt (query tp expl)]\<rparr>)"
  by (simp add: evaluate_lesson_def invoke_def)

lemma sublist_append_left: "sublist x a \<Longrightarrow> sublist x (a @ b)"
  by (auto simp: sublist_append)

lemma sublist_append_right: "sublist x b \<Longrightarrow> sublist x (a @ b)"
  by (auto simp: sublist_append)

lemma request_text_format_messages: "request_text (format_messages sys q) = sys @ q"
  by (simp add: request_text_def format_messages_def)

lemma query_contains_topic: "sublist tp (query tp expl)"
  unfolding query_def by (rule sublist_appendI)

lemma query_contains_explanation: "sublist expl (query tp expl)"
proof -
  have \<open>query tp expl =
      (''Topic: '' @ tp @ ''\<newline>\<newline>User's explanation:\<newline>'') @ expl @
      ''\<newline>\<newline>Please evaluate according to the rubric.''\<close>
    by (simp add: query_def)
  then show ?thesis by (simp only: sublist_appendI)
qed

text \<open>
  C5. When the explanation is empty or whitespace only, the web handler returns the page
  with the error "Explanation cannot be empty." and the console program prints
  "No explanation provided. Exiting." and returns; in both the world is left with the
  requests to the gateway it had before, so \<open>llm.invoke\<close> was not reached.
\<close>

theorem empty_explanation_no_gateway_call:
  "(blank expl \<longrightarrow>
      evaluate_lesson loads P llm tp expl w =
        (Inr (ErrorPage ''Explanation cannot be empty.''), w)) \<and>
   (get_explanation_from_user stdin w = (Inr (tp, expl), w1) \<and> blank expl \<longrightarrow>
      main parse llm stdin w = (Inr (), print ''No explanation provided. Exiting.'' w1) \<and>
      calls (snd (main parse llm stdin w)) = calls w)"
  by (auto simp: evaluate_lesson_def main_def get_explanation_from_user_def print_def Let_def
      split: list.splits)

theorem empty_explanation_no_gateway_call_witness:
  "blank [CHR 0x20, CHR 0xE3, CHR 0x80, CHR 0x80, CHR 0xE2, CHR 0x80, CHR 0xA8, CHR 0x0A] \<and>
   evaluate_lesson (\<lambda>s. Inl JSONDecodeError)
       \<lparr>coerce_int = \<lambda>v. None, coerce_str = \<lambda>v. None, coerce_list = \<lambda>v. None\<rparr>
       (\<lambda>m. Inr ''{}'') ''Tides'' [CHR 0x20, CHR 0xE3, CHR 0x80, CHR 0x80, CHR 0xE2, CHR 0x80, CHR 0xA8, CHR 0x0A]
       \<lparr>calls = [], printed = []\<rparr> =
     (Inr (ErrorPage ''Explanation cannot be empty.''), \<lparr>calls = [], printed = []\<rparr>) \<and>
   blank [CHR 0xE3, CHR 0x80, CHR 0x80, CHR 0x09] \<and>
   get_explanation_from_user ['' Tides '', [CHR 0xE3, CHR 0x80, CHR 0x80, CHR 0x09], ''Done'', ''late line'']
       \<lparr>calls = [], printed = []\<rparr> =
     (Inr (''Tides'', [CHR 0xE3, CHR 0x80, CHR 0x80, CHR 0x09]),
      \<lparr>calls = [],
       printed = [''Welcome to the content-focused Lesson Evaluator.'',
                  ''Enter the topic you'' @ [CHR 0x27] @ ''ll explain: '',
                  [CHR 0x0A] @ ''Begin explaining your topic. Type '' @ [CHR 0x27] @ ''DONE'' @
                  [CHR 0x27] @ '' on a new line when you are finished.'' @ [CHR 0x0A]]\<rparr>) \<and>
   calls (snd (main (\<lambda>s. Inl ''no parse'') (\<lambda>m. Inr ''{}'')
                 ['' Tides '', [CHR 0xE3, CHR 0x80, CHR 0x80, CHR 0x09], ''Done'', ''late line'']
                 \<lparr>calls = [], printed = []\<rparr>)) = []"
proof -
  have a: "blank [CHR 0x20, CHR 0xE3, CHR 0x80, CHR 0x80, CHR 0xE2, CHR 0x80, CHR 0xA8, CHR 0x0A]"
    by (simp add: blank_def strip_def whitespace_def suffix_to_prefix)
  have a': "blank [CHR 0xE3, CHR 0x80, CHR 0x80, CHR 0x09]"
    by (simp add: blank_def strip_def whitespace_def suffix_to_prefix)
  have b: "get_explanation_from_user ['' Tides '', [CHR 0xE3, CHR 0x80, CHR 0x80, CHR 0x09], ''Done'', ''late line'']
       \<lparr>calls = [], printed = []\<rparr> =
     (Inr (''Tides'', [CHR 0xE3, CHR 0x80, CHR 0x80, CHR 0x09]),
      \<lparr>calls = [],
       printed = [''Welcome to the content-focused Lesson Evaluator.'',
                  ''Enter the topic you'' @ [CHR 0x27] @ ''ll explain: '',
                  [CHR 0x0A] @ ''Begin explaining your topic. Type '' @ [CHR 0x27] @ ''DONE'' @
                  [CHR 0x27] @ '' on a new line when you are finished.'' @ [CHR 0x0A]]\<rparr>)"
    by code_simp
  from a a' b
    empty_explanation_no_gateway_call
      [of "[CHR 0x20, CHR 0xE3, CHR 0x80, CHR 0x80, CHR 0xE2, CHR 0x80, CHR 0xA8, CHR 0x0A]" "\<lambda>s. Inl JSONDecodeError"
          "\<lparr>coerce_int = \<lambda>v. None, coerce_str = \<lambda>v. None, coerce_list = \<lambda>v. None\<rparr>"
          "\<lambda>m. Inr ''{}''" "''Tides''" "\<lparr>calls = [], printed = []\<rparr>"]
    empty_explanation_no_gateway_call
      [of "[CHR 0xE3, CHR 0x80, CHR 0x80, CHR 0x09]" _ _ "\<lambda>m. Inr ''{}''" "''Tides''"
          "\<lparr>calls = [], printed = []\<rparr>"
          "['' Tides '', [CHR 0xE3, CHR 0x80, CHR 0x80, CHR 0x09], ''Done'', ''late line'']"
          "\<lparr>calls = [],
       printed = [''Welcome to the content-focused Lesson Evaluator.'',
                  ''Enter the topic you'' @ [CHR 0x27] @ ''ll explain: '',
                  [CHR 0x0A] @ ''Begin explaining your topic. Type '' @ [CHR 0x27] @ ''DONE'' @
                  [CHR 0x27] @ '' on a new line when you are finished.'' @ [CHR 0x0A]]\<rparr>"
          "\<lambda>s. Inl ''no parse''"]
  show ?thesis by (simp add: print_def)
qed

text \<open>
  The recovery the handler has. When the reply is not blank and \<open>json.loads\<close> raises
  \<open>JSONDecodeError\<close> on the extracted span, the rest of the handler runs on the empty
  mapping and returns the page with the default feedback; the handler as a whole returns
  that page and raises nothing.
\<close>

theorem decode_failure_recovered:
  "\<not> blank raw_text \<Longrightarrow> loads (extract_json raw_text) = Inl JSONDecodeError \<Longrightarrow>
     post_gateway loads P raw_text =
       Inr (FeedbackPage
         \<lparr>topic = ''Unknown Topic'', numerical_grade = 0, letter_grade = ''N/A'',
          score_content = 0, score_organization = 0, score_mechanics = 0,
          calculation = [], strengths = [], weaknesses = [],
          improvement_suggestions = [], mechanics_issues = []\<rparr>) \<and>
     (\<not> blank expl \<and> llm (format_messages system_prompt (query tp expl)) = Inr raw_text \<longrightarrow>
        fst (evaluate_lesson loads P llm tp expl w) =
          Inr (FeedbackPage
            \<lparr>topic = ''Unknown Topic'', numerical_grade = 0, letter_grade = ''N/A'',
             score_content = 0, score_organization = 0, score_mechanics = 0,
             calculation = [], strengths = [], weaknesses = [],
             improvement_suggestions = [], mechanics_issues = []\<rparr>))"
proof -
  assume "\<not> blank raw_text" "loads (extract_json raw_text) = Inl JSONDecodeError"
  then have "post_gateway loads P raw_text =
       Inr (FeedbackPage
         \<lparr>topic = ''Unknown Topic'', numerical_grade = 0, letter_grade = ''N/A'',
          score_content = 0, score_organization = 0, score_mechanics = 0,
          calculation = [], strengths = [], weaknesses = [],
          improvement_suggestions = [], mechanics_issues = []\<rparr>)"
    by (simp add: post_gateway_def adapt_feedback_def dict_get_def dict_get_or_def py_or_def
        LessonFeedback_init_def field_def and_then_def validate_int_def validate_str_def
        validate_str_list_def)
  then show ?thesis by (simp add: evaluate_lesson_nonblank and_then_def)
qed

theorem decode_failure_recovered_witness:
  "\<not> blank ''Sorry, {no grade today}'' \<and>
   (\<lambda>s. if s = ''{}'' then Inr (PDict []) else Inl JSONDecodeError)
     (extract_json ''Sorry, {no grade today}'') = Inl JSONDecodeError \<and>
   \<not> blank ''Tides rise twice a day.'' \<and>
   post_gateway (\<lambda>s. if s = ''{}'' then Inr (PDict []) else Inl JSONDecodeError)
       \<lparr>coerce_int = \<lambda>v. None, coerce_str = \<lambda>v. None, coerce_list = \<lambda>v. None\<rparr>
       ''Sorry, {no grade today}'' =
     Inr (FeedbackPage
       \<lparr>topic = ''Unknown Topic'', numerical_grade = 0, letter_grade = ''N/A'',
        score_content = 0, score_organization = 0, score_mechanics = 0,
        calculation = [], strengths = [], weaknesses = [],
        improvement_suggestions = [], mechanics_issues = []\<rparr>) \<and>
   fst (evaluate_lesson (\<lambda>s. if s = ''{}'' then Inr (PDict []) else Inl JSONDecodeError)
          \<lparr>coerce_int = \<lambda>v. None, coerce_str = \<lambda>v. None, coerce_list = \<lambda>v. None\<rparr>
          (\<lambda>m. Inr ''Sorry, {no grade today}'') ''Tides'' ''Tides rise twice a day.''
          \<lparr>calls = [], printed = []\<rparr>) =
     Inr (FeedbackPage
       \<lparr>topic = ''Unknown Topic'', numerical_grade = 0, letter_grade = ''N/A'',
        score_content = 0, score_organization = 0, score_mechanics = 0,
        calculation = [], strengths = [], weaknesses = [],
        improvement_suggestions = [], mechanics_issues = []\<rparr>)"
proof -
  have a: "\<not> blank ''Sorry, {no grade today}''"
    by (simp add: blank_def strip_def whitespace_def suffix_to_prefix)
  have b: "(\<lambda>s. if s = ''{}'' then Inr (PDict []) else Inl JSONDecodeError)
     (extract_json ''Sorry, {no grade today}'') = Inl JSONDecodeError"
    by (simp add: extract_json_def strip_def whitespace_def suffix_to_prefix)
  have c: "\<not> blank ''Tides rise twice a day.''"
    by (simp add: blank_def strip_def whitespace_def suffix_to_prefix)
  from a b c
    decode_failure_recovered
      [of "''Sorry, {no grade today}''"
          "\<lambda>s. if s = ''{}'' then Inr (PDict []) else Inl JSONDecodeError"
          "\<lparr>coerce_int = \<lambda>v. None, coerce_str = \<lambda>v. None, coerce_list = \<lambda>v. None\<rparr>"
          "''Tides rise twice a day.''" "\<lambda>m. Inr ''Sorry, {no grade today}''" "''Tides''"
          "\<lparr>calls = [], printed = []\<rparr>", OF a b]
  show ?thesis by simp
qed

text \<open>
  C6. The recovery misses a case. \<open>deep_reply\<close> is extracted whole, it is not valid JSON,
  and \<open>json.loads\<close> fails on it with \<open>RecursionError\<close>, which the handler does not catch:
  with any decoder that does so on this span, the rest of the handler raises
  \<open>RecursionError\<close> and so does the handler as a whole, where the claim has the empty
  mapping substituted and the default feedback returned.
\<close>

theorem decode_error_surfaced:
  "extract_json deep_reply = deep_reply \<and>
   \<not> blank deep_reply \<and>
   post_gateway (\<lambda>s. if s = deep_reply then Inl RecursionError else loads s) P deep_reply =
     Inl RecursionError \<and>
   fst (evaluate_lesson (\<lambda>s. if s = deep_reply then Inl RecursionError else loads s) P
          (\<lambda>m. Inr deep_reply) tp ''Tides rise twice a day.'' w) = Inl RecursionError"
proof -
  have e: "extract_json deep_reply = deep_reply"
    unfolding deep_reply_braced by (rule extract_json_braced)
  have "strip deep_reply = deep_reply"
    unfolding deep_reply_braced by (rule strip_braced)
  then have b: "\<not> blank deep_reply"
    by (simp add: blank_def deep_reply_braced)
  from e b have p: "post_gateway (\<lambda>s. if s = deep_reply then Inl RecursionError else loads s)
      P deep_reply = Inl RecursionError"
    by (simp add: post_gateway_def and_then_def)
  have "\<not> blank ''Tides rise twice a day.''"
    by (simp add: blank_def strip_def whitespace_def suffix_to_prefix)
  with p have "fst (evaluate_lesson (\<lambda>s. if s = deep_reply then Inl RecursionError else loads s)
          P (\<lambda>m. Inr deep_reply) tp ''Tides rise twice a day.'' w) = Inl RecursionError"
    by (simp add: evaluate_lesson_nonblank and_then_def)
  with e b p show ?thesis by blast
qed

text \<open>
  C7, as the code has it. For every topic and explanation the request of the web handler
  is the system message with the rubric followed by the human message with the query; its
  text contains the topic, the explanation, and the weights, which the web prompt writes
  0.8, 0.15 and 0.05 (the console prompt writes 0.80, 0.15 and 0.05). Building the request
  reads nothing but the two inputs, and for an explanation that is not blank the handler
  leaves the world as it was but for that one request, sent to the gateway.
\<close>

theorem prompt_contains_inputs:
  "format_messages system_prompt (query tp expl) =
     [SystemMessage system_prompt, HumanMessage (query tp expl)] \<and>
   sublist tp (request_text (format_messages system_prompt (query tp expl))) \<and>
   sublist expl (request_text (format_messages system_prompt (query tp expl))) \<and>
   sublist ''0.8'' (request_text (format_messages system_prompt (query tp expl))) \<and>
   sublist ''0.15'' (request_text (format_messages system_prompt (query tp expl))) \<and>
   sublist ''0.05'' (request_text (format_messages system_prompt (query tp expl))) \<and>
   sublist ''0.80'' console_system_prompt \<and>
   sublist ''0.15'' console_system_prompt \<and>
   sublist ''0.05'' console_system_prompt \<and>
   (\<not> blank expl \<longrightarrow>
      snd (evaluate_lesson loads P llm tp expl w) =
        w\<lparr>calls := calls w @ [format_messages system_prompt (query tp expl)]\<rparr>)"
proof -
  have w1: "sublist ''0.8'' system_prompt" by (simp add: system_prompt_def sublist_code)
  have w2: "sublist ''0.15'' system_prompt" by (simp add: system_prompt_def sublist_code)
  have w3: "sublist ''0.05'' system_prompt" by (simp add: system_prompt_def sublist_code)
  have c1: "sublist ''0.80'' console_system_prompt"
    by (simp add: console_system_prompt_def sublist_code)
  have c2: "sublist ''0.15'' console_system_prompt"
    by (simp add: console_system_prompt_def sublist_code)
  have c3: "sublist ''0.05'' console_system_prompt"
    by (simp add: console_system_prompt_def sublist_code)
  have m: "format_messages system_prompt (query tp expl) =
     [SystemMessage system_prompt, HumanMessage (query tp expl)]"
    by (simp add: format_messages_def)
  have e: "\<not> blank expl \<longrightarrow>
      snd (evaluate_lesson loads P llm tp expl w) =
        w\<lparr>calls := calls w @ [format_messages system_prompt (query tp expl)]\<rparr>"
    by (simp add: evaluate_lesson_nonblank)
  have r: "request_text (format_messages system_prompt (query tp expl)) =
      system_prompt @ query tp expl"
    by (rule request_text_format_messages)
  have s1: "sublist tp (request_text (format_messages system_prompt (query tp expl)))"
    unfolding r by (rule sublist_append_right [OF query_contains_topic])
  have s2: "sublist expl (request_text (format_messages system_prompt (query tp expl)))"
    unfolding r by (rule sublist_append_right [OF query_contains_explanation])
  have s3: "sublist ''0.8'' (request_text (format_messages system_prompt (query tp expl)))"
    unfolding r by (rule sublist_append_left [OF w1])
  have s4: "sublist ''0.15'' (request_text (format_messages system_prompt (query tp expl)))"
    unfolding r by (rule sublist_append_left [OF w2])
  have s5: "sublist ''0.05'' (request_text (format_messages system_prompt (query tp expl)))"
    unfolding r by (rule sublist_append_left [OF w3])
  from m s1 s2 s3 s4 s5 c1 c2 c3 e show ?thesis by blast
qed

theorem prompt_contains_inputs_witness:
  "\<not> blank ''Plants turn light into sugar.'' \<and>
   snd (evaluate_lesson (\<lambda>s. Inl JSONDecodeError)
          \<lparr>coerce_int = \<lambda>v. None, coerce_str = \<lambda>v. None, coerce_list = \<lambda>v. None\<rparr>
          (\<lambda>m. Inr ''{}'') ''Photosynthesis'' ''Plants turn light into sugar.''
          \<lparr>calls = [], printed = []\<rparr>) =
     \<lparr>calls = [[SystemMessage system_prompt,
                 HumanMessage (query ''Photosynthesis'' ''Plants turn light into sugar.'')]],
      printed = []\<rparr>"
proof -
  have a: "\<not> blank ''Plants turn light into sugar.''"
    by (simp add: blank_def strip_def whitespace_def suffix_to_prefix)
  from a
    prompt_contains_inputs
      [of "''Photosynthesis''" "''Plants turn light into sugar.''"
          "\<lambda>s. Inl JSONDecodeError"
          "\<lparr>coerce_int = \<lambda>v. None, coerce_str = \<lambda>v. None, coerce_list = \<lambda>v. None\<rparr>"
          "\<lambda>m. Inr ''{}''" "\<lparr>calls = [], printed = []\<rparr>"]
  show ?thesis by simp
qed

text \<open>
  C7 with the weight of the content read as the text 0.80 fails on the web prompt: the
  request for a topic and an explanation that do not hold that text does not hold it.
\<close>

theorem prompt_weight_counterexample:
  "\<not> sublist ''0.80''
       (request_text
          (format_messages system_prompt
             (query ''Photosynthesis'' ''Plants turn light into sugar.'')))"
  by (simp add: request_text_def format_messages_def query_def system_prompt_def
      sublist_code)

text \<open>
  C8. What the web handler returns is a function of the raw text of the reply: two runs
  with explanations that are not blank, whatever their topics, explanations, gateways and
  worlds, whose gateways reply with the same raw text return the same page (or raise the
  same error), the one \<open>post_gateway\<close> computes from that text.
\<close>

theorem outcome_determined_by_raw_text:
  "\<not> blank e1 \<Longrightarrow> \<not> blank e2 \<Longrightarrow>
   llm1 (format_messages system_prompt (query t1 e1)) = Inr raw_text \<Longrightarrow>
   llm2 (format_messages system_prompt (query t2 e2)) = Inr raw_text \<Longrightarrow>
     fst (evaluate_lesson loads P llm1 t1 e1 w1) = post_gateway loads P raw_text \<and>
     fst (evaluate_lesson loads P llm2 t2 e2 w2) = fst (evaluate_lesson loads P llm1 t1 e1 w1)"
  by (simp add: evaluate_lesson_nonblank and_then_def)

theorem outcome_determined_by_raw_text_witness:
  \<open>\<not> blank ''Plants turn light into sugar.'' \<and> \<not> blank ''The moon pulls the sea.'' \<and>
   fst (evaluate_lesson
          (\<lambda>s. if s = ''{"overall_score": 77}''
                then Inr (PDict [(''overall_score'', PInt 77)]) else Inl JSONDecodeError)
          \<lparr>coerce_int = \<lambda>v. None, coerce_str = \<lambda>v. None, coerce_list = \<lambda>v. None\<rparr>
          (\<lambda>m. Inr ''Here: {"overall_score": 77} Bye.'')
          ''Tides'' ''The moon pulls the sea.'' \<lparr>calls = [[]], printed = [''x'']\<rparr>) =
   fst (evaluate_lesson
          (\<lambda>s. if s = ''{"overall_score": 77}''
                then Inr (PDict [(''overall_score'', PInt 77)]) else Inl JSONDecodeError)
          \<lparr>coerce_int = \<lambda>v. None, coerce_str = \<lambda>v. None, coerce_list = \<lambda>v. None\<rparr>
          (\<lambda>m. if m = [] then Inl (OtherError ''down'')
                else Inr ''Here: {"overall_score": 77} Bye.'')
          ''Photosynthesis'' ''Plants turn light into sugar.''
          \<lparr>calls = [], printed = []\<rparr>)\<close>
proof -
  have a: "\<not> blank ''Plants turn light into sugar.''"
    by (simp add: blank_def strip_def whitespace_def suffix_to_prefix)
  have b: "\<not> blank ''The moon pulls the sea.''"
    by (simp add: blank_def strip_def whitespace_def suffix_to_prefix)
  have c: \<open>(\<lambda>m. if m = [] then Inl (OtherError ''down'')
                else Inr ''Here: {"overall_score": 77} Bye.'')
        (format_messages system_prompt
           (query ''Photosynthesis'' ''Plants turn light into sugar.'')) =
      Inr ''Here: {"overall_score": 77} Bye.''\<close>
    by (simp add: format_messages_def)
  have d: \<open>(\<lambda>m. Inr ''Here: {"overall_score": 77} Bye.'')
        (format_messages system_prompt (query ''Tides'' ''The moon pulls the sea.'')) =
      Inr ''Here: {"overall_score": 77} Bye.''\<close>
    by simp
  from a b c d
    outcome_determined_by_raw_text
      [where ?e1.0 = "''Plants turn light into sugar.''" and ?t1.0 = "''Photosynthesis''"
         and ?e2.0 = "''The moon pulls the sea.''" and ?t2.0 = "''Tides''"
         and ?llm1.0 = \<open>\<lambda>m. if m = [] then Inl (OtherError ''down'')
                else Inr ''Here: {"overall_score": 77} Bye.''\<close>
         and ?llm2.0 = \<open>\<lambda>m. Inr ''Here: {"overall_score": 77} Bye.''\<close>
         and raw_text = \<open>''Here: {"overall_score": 77} Bye.''\<close>
         and loads = \<open>\<lambda>s. if s = ''{"overall_score": 77}''
                then Inr (PDict [(''overall_score'', PInt 77)]) else Inl JSONDecodeError\<close>
         and P = "\<lparr>coerce_int = \<lambda>v. None, coerce_str = \<lambda>v. None, coerce_list = \<lambda>v. None\<rparr>"
         and ?w1.0 = "\<lparr>calls = [], printed = []\<rparr>"
         and ?w2.0 = "\<lparr>calls = [[]], printed = [''x'']\<rparr>"]
  show ?thesis by simp
qed

end
